theory Spec2Isabelle
  imports Complex_Main "HOL-Library.Multiset"
begin

section \<open>Block-level power dispatch (power\_forecasting.py)\<close>

text \<open>
  A shallow embedding of the dispatch pipeline of \<^verbatim>\<open>src/power_forecasting.py\<close>:
  demand adjustment, must-run allocation, the linear program over the available
  generators, grid residual costing, the per-block driver \<^verbatim>\<open>process_block\<close> and the
  report assembly of \<^verbatim>\<open>run_normal\<close>.

  Modelling decisions.
  \<^item> Numbers are exact reals; NaN cells and rounding are outside the model.
  \<^item> A pandas DataFrame is its list of column labels and its list of rows, each row a date
    (the \<^verbatim>\<open>Date\<close> column) and a cell for every label. A column label is an integer or a
    string, as the block labels of a sheet can be either.
  \<^item> Every \<^verbatim>\<open>raise\<close> of the source is a value \<open>Inl e\<close>; a \<^verbatim>\<open>return None\<close> is a tagged
    failure as well.
  \<^item> The CBC solver behind \<^verbatim>\<open>prob.solve()\<close> is a parameter \<open>solve\<close>; every problem
    handed to it is recorded, so that "the solver was not invoked" is the empty record.
  \<^item> Detail strings are kept as their lines \<open>(code, energy, cost)\<close>; the rendering to text
    is not modelled.
  \<^item> File input and output, logging and the UI are not modelled; the assignment of the
    module attribute \<^verbatim>\<open>pulp.LpSolverDefault\<close> has no place in this value-level model.
\<close>

subsection \<open>Data\<close>

type_synonym date = int

datatype label = IntLabel int | StrLabel string

record dataframe =
  columns :: "label list"
  rows :: "(date \<times> (label \<Rightarrow> real)) list"

datatype py_error =
  IndexError | KeyError | ValueError | TypeError | UnboundLocalError | PulpSolverError

record generator =
  Code :: string
  name :: string
  Type_of_Plant :: string
  variable_cost :: real

definition DEMAND_CONVERSION_FACTOR :: real where
  "DEMAND_CONVERSION_FACTOR = 1000 * 0.25"

definition MUST_RUN_TYPE :: string where
  "MUST_RUN_TYPE = ''Must run''"

definition AVAILABLE_TYPE :: string where
  "AVAILABLE_TYPE = ''Available''"

text \<open>Python's \<^verbatim>\<open>str\<close> on an integer: its decimal digits, with a sign when negative.\<close>

fun nat_digits :: "nat \<Rightarrow> string" where
  "nat_digits n =
     (if n < 10 then [''0123456789'' ! n]
      else nat_digits (n div 10) @ [''0123456789'' ! (n mod 10)])"

declare nat_digits.simps [simp del]

definition str :: "int \<Rightarrow> string" where
  "str i = (if i < 0 then CHR ''-'' # nat_digits (nat (- i)) else nat_digits (nat i))"

text \<open>\<^verbatim>\<open>df[df['Date'] == date]\<close>: the rows of that date, in sheet order.\<close>

definition rows_on :: "dataframe \<Rightarrow> date \<Rightarrow> (label \<Rightarrow> real) list" where
  "rows_on df d = map snd (filter (\<lambda>r. fst r = d) (rows df))"

text \<open>
  The entry of a table for a date and block, as the three table lookups of the source
  (open access, bank, grid rate) find it: the first row of that date, under the integer
  label when it is a column and under its string form otherwise.
\<close>

definition table_entry :: "dataframe \<Rightarrow> date \<Rightarrow> int \<Rightarrow> real option" where
  "table_entry df date block =
     (case rows_on df date of
        [] \<Rightarrow> None
      | r # _ \<Rightarrow>
          if IntLabel block \<in> set (columns df) then Some (r (IntLabel block))
          else if StrLabel (str block) \<in> set (columns df) then Some (r (StrLabel (str block)))
          else None)"

text \<open>
  \<^verbatim>\<open>generator_data.loc[generator_data['Date'] == date, block].values[0]\<close>: the column is
  looked up by the integer label only (KeyError when absent), then the first matching row
  is read (IndexError when there is none).
\<close>

definition loc_values0 :: "dataframe \<Rightarrow> date \<Rightarrow> int \<Rightarrow> py_error + real" where
  "loc_values0 generator_data date block =
     (if IntLabel block \<notin> set (columns generator_data) then Inl KeyError
      else (case rows_on generator_data date of
              [] \<Rightarrow> Inl IndexError
            | r # _ \<Rightarrow> Inr (r (IntLabel block))))"

subsection \<open>Demand adjustment\<close>

definition adjust_demand_with_open_access ::
  "date \<Rightarrow> int \<Rightarrow> real \<Rightarrow> dataframe \<Rightarrow> real \<times> real" where
  "adjust_demand_with_open_access date block demand_mw df_oa =
     (case rows_on df_oa date of
        [] \<Rightarrow> (demand_mw * DEMAND_CONVERSION_FACTOR, 0)
      | r # _ \<Rightarrow>
          (let block_column =
                 (if IntLabel block \<in> set (columns df_oa) then IntLabel block
                  else StrLabel (str block))
           in if block_column \<notin> set (columns df_oa)
              then (demand_mw * DEMAND_CONVERSION_FACTOR, 0)
              else (let oa_value_mw = r block_column;
                        adjusted_demand_mw = demand_mw - oa_value_mw;
                        adjusted_demand_kwh = adjusted_demand_mw * DEMAND_CONVERSION_FACTOR
                    in (adjusted_demand_kwh, oa_value_mw))))"

definition adjust_demand_with_bank ::
  "date \<Rightarrow> int \<Rightarrow> real \<Rightarrow> dataframe \<Rightarrow> real \<times> real" where
  "adjust_demand_with_bank date block demand_kwh df_bank =
     (case rows_on df_bank date of
        [] \<Rightarrow> (demand_kwh, 0)
      | r # _ \<Rightarrow>
          (let block_column =
                 (if IntLabel block \<in> set (columns df_bank) then IntLabel block
                  else StrLabel (str block))
           in if block_column \<notin> set (columns df_bank)
              then (demand_kwh, 0)
              else (let bank_value_mw = r block_column;
                        bank_value_kwh = bank_value_mw * DEMAND_CONVERSION_FACTOR;
                        adjusted_demand = demand_kwh + bank_value_kwh
                    in (adjusted_demand, bank_value_mw))))"

subsection \<open>Grid rate\<close>

definition load_grid_cost :: "date \<Rightarrow> int \<Rightarrow> dataframe \<Rightarrow> py_error + real" where
  "load_grid_cost date block df_grid_cost =
     (case rows_on df_grid_cost date of
        [] \<Rightarrow> Inl ValueError
      | r # _ \<Rightarrow>
          (let block_column =
                 (if IntLabel block \<in> set (columns df_grid_cost) then IntLabel block
                  else StrLabel (str block))
           in if block_column \<notin> set (columns df_grid_cost) then Inl ValueError
              else Inr (r block_column)))"

subsection \<open>The linear program\<close>

datatype lp_sense = LpMinimize | LpMaximize

record lp_variable =
  lowBound :: real
  upBound :: real

text \<open>
  An affine expression built by \<^verbatim>\<open>lpSum\<close> over variables is the list of their names (a
  name listed twice has coefficient 2). A constraint is \<open>(names, rhs)\<close> for
  \<open>sum names \<le> rhs\<close>. The dictionary \<^verbatim>\<open>gen_power_vars\<close> maps a generator's name to its
  variable.
\<close>

record lp_problem =
  prob_name :: string
  sense :: lp_sense
  objective :: "string list"
  constraints :: "(string list \<times> real) list"

type_synonym gen_power_vars = "string \<rightharpoonup> lp_variable"

datatype lp_status = Optimal | Not_Solved | Infeasible | Unbounded | Undefined

record lp_solution =
  status :: lp_status
  varValue :: "string \<Rightarrow> real"

type_synonym solver = "lp_problem \<Rightarrow> gen_power_vars \<Rightarrow> py_error + lp_solution"

type_synonym solver_call = "lp_problem \<times> gen_power_vars"

fun setup_vars :: "generator list \<Rightarrow> gen_power_vars \<Rightarrow> gen_power_vars" where
  "setup_vars [] vars = vars"
| "setup_vars (g # gs) vars =
     setup_vars gs (vars(name g \<mapsto> \<lparr>lowBound = 0, upBound = 0\<rparr>))"

definition setup_optimization_problem ::
  "generator list \<Rightarrow> lp_problem \<times> gen_power_vars" where
  "setup_optimization_problem available_generators =
     (\<lparr>prob_name = ''Maximize_Generator_Use'', sense = LpMaximize,
       objective = [], constraints = []\<rparr>,
      setup_vars available_generators Map.empty)"

subsection \<open>Module state read by the dispatch functions\<close>

text \<open>
  The module globals \<^verbatim>\<open>preloaded_generators\<close> (generator code to its availability
  sheet), \<^verbatim>\<open>df_grid_cost\<close>, \<^verbatim>\<open>df_oa\<close> and \<^verbatim>\<open>df_bank\<close>, loaded once at import.
\<close>

record globals =
  preloaded_generators :: "string \<rightharpoonup> dataframe"
  grid_cost_table :: dataframe
  oa_table :: dataframe
  bank_table :: dataframe

subsection \<open>Must-run allocation\<close>

type_synonym detail = "string \<times> real \<times> real"

text \<open>
  The loop of \<^verbatim>\<open>calculate_must_run_power\<close> over the must-run rows, with its three
  accumulators. A generator whose code has no sheet is passed over by the source's
  \<^verbatim>\<open>if generator_data is not None\<close>.
\<close>

fun must_run_loop ::
  "globals \<Rightarrow> date \<Rightarrow> int \<Rightarrow> generator list \<Rightarrow> real \<times> real \<times> detail list
     \<Rightarrow> py_error + real \<times> real \<times> detail list" where
  "must_run_loop glob date block [] acc = Inr acc"
| "must_run_loop glob date block (g # gs) (must_run_power, must_run_cost, must_run_details) =
     (case preloaded_generators glob (Code g) of
        None \<Rightarrow>
          must_run_loop glob date block gs (must_run_power, must_run_cost, must_run_details)
      | Some generator_data \<Rightarrow>
          (case loc_values0 generator_data date block of
             Inl e \<Rightarrow> Inl e
           | Inr power_mw \<Rightarrow>
               (let power_kwh = power_mw * DEMAND_CONVERSION_FACTOR
                in must_run_loop glob date block gs
                     (must_run_power + power_kwh,
                      must_run_cost + power_kwh * variable_cost g,
                      must_run_details @ [(Code g, power_kwh, power_kwh * variable_cost g)]))))"

definition calculate_must_run_power ::
  "globals \<Rightarrow> generator list \<Rightarrow> date \<Rightarrow> int \<Rightarrow> py_error + real \<times> real \<times> detail list" where
  "calculate_must_run_power glob generators date block =
     must_run_loop glob date block
       (filter (\<lambda>g. Type_of_Plant g = MUST_RUN_TYPE) generators) (0, 0, [])"

subsection \<open>Optimization of the available generators\<close>

text \<open>The first loop of \<^verbatim>\<open>optimize_available_generators\<close>: the upper bounds.\<close>

fun set_upBounds ::
  "globals \<Rightarrow> date \<Rightarrow> int \<Rightarrow> generator list \<Rightarrow> gen_power_vars \<Rightarrow> py_error + gen_power_vars" where
  "set_upBounds glob date block [] vars = Inr vars"
| "set_upBounds glob date block (g # gs) vars =
     (case preloaded_generators glob (Code g) of
        None \<Rightarrow> set_upBounds glob date block gs vars
      | Some generator_data \<Rightarrow>
          (case loc_values0 generator_data date block of
             Inl e \<Rightarrow> Inl e
           | Inr power_mw \<Rightarrow>
               (let power_kwh = power_mw * DEMAND_CONVERSION_FACTOR
                in case vars (name g) of
                     None \<Rightarrow> Inl KeyError
                   | Some v \<Rightarrow>
                       set_upBounds glob date block gs
                         (vars(name g \<mapsto> v\<lparr>upBound := power_kwh\<rparr>)))))"

text \<open>\<^verbatim>\<open>lpSum(gen_power_vars[g['name']] for ...)\<close>: every name must be a key.\<close>

definition lpSum_vars :: "gen_power_vars \<Rightarrow> generator list \<Rightarrow> py_error + string list" where
  "lpSum_vars vars gs =
     (if list_all (\<lambda>g. vars (name g) \<noteq> None) gs then Inr (map name gs) else Inl KeyError)"

definition optimize_available_generators ::
  "solver \<Rightarrow> globals \<Rightarrow> real \<Rightarrow> date \<Rightarrow> int \<Rightarrow> generator list \<Rightarrow> lp_problem \<Rightarrow> gen_power_vars
     \<Rightarrow> (py_error + real \<times> real \<times> detail list) \<times> solver_call list" where
  "optimize_available_generators solve glob remaining_demand date block generators prob gen_vars =
     (let available_generators = filter (\<lambda>g. Type_of_Plant g = AVAILABLE_TYPE) generators
      in case set_upBounds glob date block available_generators gen_vars of
           Inl e \<Rightarrow> (Inl e, [])
         | Inr vars' \<Rightarrow>
             (case lpSum_vars vars' available_generators of
                Inl e \<Rightarrow> (Inl e, [])
              | Inr expr \<Rightarrow>
                  (let prob' = prob\<lparr>objective := expr,
                                   constraints := constraints prob @ [(expr, remaining_demand)]\<rparr>
                   in case solve prob' vars' of
                        Inl e \<Rightarrow> (Inl e, [(prob', vars')])
                      | Inr sol \<Rightarrow>
                          if status sol = Optimal
                          then (Inr (sum_list (map (\<lambda>g. varValue sol (name g)) available_generators),
                                     sum_list (map (\<lambda>g. varValue sol (name g) * variable_cost g)
                                                 available_generators),
                                     map (\<lambda>g. (Code g, varValue sol (name g),
                                                varValue sol (name g) * variable_cost g))
                                       available_generators),
                                [(prob', vars')])
                          else (Inr (0, 0, []), [(prob', vars')]))))"

subsection \<open>One block\<close>

record block_result =
  Date :: date
  Block :: int
  Demand :: real
  Total_Demand_Met :: real
  Must_Run_Generators_Used_kWh :: real
  Available_Generators_Used_kWh :: real
  Grid_Consumption_kWh :: real
  Total_Cost :: real
  Grid_Rate :: real
  OA_Used_MW :: "real option"
  Bank_Adjustment_MW :: "real option"
  Must_Run_Generator_Details :: "detail list"
  Available_Generator_Details :: "detail list"

text \<open>
  How \<^verbatim>\<open>optimize_power_for_demand\<close> ends without a result: its two \<^verbatim>\<open>return None\<close>
  (after "Invalid remaining demand" and after "Error loading grid cost"), or an exception
  that leaves the function.
\<close>

datatype failure = InvalidRemainingDemand | GridCostError | Raised py_error

text \<open>
  When \<open>remaining_demand = 0\<close> the source skips the branch that assigns
  \<^verbatim>\<open>available_gen_details\<close> and then reads it in the returned dictionary: Python raises
  UnboundLocalError there.
\<close>

definition optimize_power_for_demand ::
  "solver \<Rightarrow> globals \<Rightarrow> real \<Rightarrow> date \<Rightarrow> int \<Rightarrow> generator list \<Rightarrow> lp_problem \<Rightarrow> gen_power_vars
     \<Rightarrow> (failure + block_result) \<times> solver_call list" where
  "optimize_power_for_demand solve glob demand_kwh date block generators prob gen_vars =
     (case calculate_must_run_power glob generators date block of
        Inl e \<Rightarrow> (Inl (Raised e), [])
      | Inr (must_run_power, must_run_cost, must_run_details) \<Rightarrow>
          (let remaining_demand = demand_kwh - must_run_power
           in if remaining_demand < 0 then (Inl InvalidRemainingDemand, [])
              else (case load_grid_cost date block (grid_cost_table glob) of
                      Inl e \<Rightarrow> (Inl GridCostError, [])
                    | Inr grid_cost \<Rightarrow>
                        if remaining_demand > 0
                        then (case optimize_available_generators solve glob remaining_demand
                                     date block generators prob gen_vars of
                                (Inl e, calls) \<Rightarrow> (Inl (Raised e), calls)
                              | (Inr (available_gen_demand_met, available_gen_cost,
                                      available_gen_details), calls) \<Rightarrow>
                                  (let exchange_quantity =
                                         (if available_gen_demand_met < remaining_demand
                                          then remaining_demand - available_gen_demand_met else 0);
                                       total_cost =
                                         (if available_gen_demand_met < remaining_demand
                                          then must_run_cost + available_gen_cost
                                                 + exchange_quantity * grid_cost
                                          else must_run_cost + available_gen_cost)
                                   in (Inr \<lparr>Date = date, Block = block, Demand = demand_kwh,
                                            Total_Demand_Met = demand_kwh,
                                            Must_Run_Generators_Used_kWh = must_run_power,
                                            Available_Generators_Used_kWh = available_gen_demand_met,
                                            Grid_Consumption_kWh = exchange_quantity,
                                            Total_Cost = total_cost,
                                            Grid_Rate = grid_cost,
                                            OA_Used_MW = None,
                                            Bank_Adjustment_MW = None,
                                            Must_Run_Generator_Details = must_run_details,
                                            Available_Generator_Details = available_gen_details\<rparr>,
                                       calls)))
                        else (Inl (Raised UnboundLocalError), []))))"

text \<open>
  \<^verbatim>\<open>process_block\<close> catches every exception and returns \<^verbatim>\<open>None\<close>; a \<^verbatim>\<open>None\<close> from
  \<^verbatim>\<open>optimize_power_for_demand\<close> raises TypeError at the first item assignment and ends
  the same way.
\<close>

definition process_block ::
  "solver \<Rightarrow> globals \<Rightarrow> real \<Rightarrow> date \<Rightarrow> int \<Rightarrow> generator list
     \<Rightarrow> block_result option \<times> solver_call list" where
  "process_block solve glob demand date block df_generators =
     (let (demand_after_oa, oa_value_mw) =
            adjust_demand_with_open_access date block demand (oa_table glob);
          (demand_after_bank, bank_value_mw) =
            adjust_demand_with_bank date block demand_after_oa (bank_table glob);
          (prob, gen_vars) = setup_optimization_problem df_generators
      in case optimize_power_for_demand solve glob demand_after_bank date block
                df_generators prob gen_vars of
           (Inl e, calls) \<Rightarrow> (None, calls)
         | (Inr result, calls) \<Rightarrow>
             (Some (result\<lparr>OA_Used_MW := Some oa_value_mw,
                           Bank_Adjustment_MW := Some bank_value_mw\<rparr>), calls))"

text \<open>The demand handed to \<^verbatim>\<open>optimize_power_for_demand\<close>: \<^verbatim>\<open>demand_after_bank\<close>.\<close>

definition net_demand :: "globals \<Rightarrow> real \<Rightarrow> date \<Rightarrow> int \<Rightarrow> real" where
  "net_demand glob demand date block =
     fst (adjust_demand_with_bank date block
            (fst (adjust_demand_with_open_access date block demand (oa_table glob)))
            (bank_table glob))"

text \<open>The rows \<^verbatim>\<open>generators[generators['Type of Plant'] == AVAILABLE_TYPE]\<close>.\<close>

definition available_of :: "generator list \<Rightarrow> generator list" where
  "available_of gens = filter (\<lambda>g. Type_of_Plant g = AVAILABLE_TYPE) gens"

text \<open>
  The energy bound the first loop of \<^verbatim>\<open>optimize_available_generators\<close> computes for a
  generator (\<^verbatim>\<open>power_kwh\<close>); a generator without a sheet keeps the bound 0 it was
  created with.
\<close>

definition availability_bound :: "globals \<Rightarrow> date \<Rightarrow> int \<Rightarrow> generator \<Rightarrow> real" where
  "availability_bound glob date block g =
     (case preloaded_generators glob (Code g) of
        None \<Rightarrow> 0
      | Some generator_data \<Rightarrow>
          (case loc_values0 generator_data date block of
             Inl e \<Rightarrow> 0
           | Inr power_mw \<Rightarrow> power_mw * DEMAND_CONVERSION_FACTOR))"

subsection \<open>The run over all blocks and the report\<close>

text \<open>
  A submitted task is \<open>(demand_mw, date, block)\<close>. The submission loops read
  \<^verbatim>\<open>row[block]\<close> for every block of the range, row by row. The demand sheet is taken
  to label its block columns with integers: a block that is not a label raises KeyError.
\<close>

type_synonym task = "real \<times> date \<times> int"

fun submit_blocks ::
  "dataframe \<Rightarrow> date \<times> (label \<Rightarrow> real) \<Rightarrow> int list \<Rightarrow> py_error + task list" where
  "submit_blocks df_demand row [] = Inr []"
| "submit_blocks df_demand row (block # blocks) =
     (if IntLabel block \<notin> set (columns df_demand) then Inl KeyError
      else (case submit_blocks df_demand row blocks of
              Inl e \<Rightarrow> Inl e
            | Inr futures \<Rightarrow> Inr ((snd row (IntLabel block), fst row, block) # futures)))"

fun submit_rows ::
  "dataframe \<Rightarrow> (date \<times> (label \<Rightarrow> real)) list \<Rightarrow> int list \<Rightarrow> py_error + task list" where
  "submit_rows df_demand [] blocks = Inr []"
| "submit_rows df_demand (row # later) blocks =
     (case submit_blocks df_demand row blocks of
        Inl e \<Rightarrow> Inl e
      | Inr futures \<Rightarrow>
          (case submit_rows df_demand later blocks of
             Inl e \<Rightarrow> Inl e
           | Inr futures' \<Rightarrow> Inr (futures @ futures')))"

text \<open>
  The loop over \<^verbatim>\<open>as_completed(futures)\<close>: the results that are not \<^verbatim>\<open>None\<close>, in the
  order in which the tasks complete.
\<close>

definition collect_results ::
  "solver \<Rightarrow> globals \<Rightarrow> generator list \<Rightarrow> task list \<Rightarrow> block_result list" where
  "collect_results solve glob df_generators completed =
     List.map_filter
       (\<lambda>(demand_mw, date, block).
          fst (process_block solve glob demand_mw date block df_generators))
       completed"

record report_row =
  col_Date :: date
  col_Block :: int
  col_Demand :: real
  col_OA_Used_MW :: real
  col_Bank_Adjustment_MW :: real
  col_Net_Demand_kWh :: real
  col_Must_Run_Generators_Used_kWh :: real
  col_Must_Run_Generator_Details :: "detail list"
  col_Available_Generators_Used_kWh :: real
  col_Available_Generator_Details :: "detail list"
  col_Grid_Consumption_kWh :: real
  col_Grid_Rate :: real
  col_Total_Cost :: real

text \<open>
  One row of \<^verbatim>\<open>df_results\<close> with the derived column
  \<^verbatim>\<open>Demand - OA * FACTOR + Bank * FACTOR\<close>. A result whose adjustment fields were still
  \<^verbatim>\<open>None\<close> could not be multiplied (TypeError).
\<close>

definition report_row_of :: "block_result \<Rightarrow> py_error + report_row" where
  "report_row_of r =
     (case (OA_Used_MW r, Bank_Adjustment_MW r) of
        (Some oa, Some bank) \<Rightarrow>
          Inr \<lparr>col_Date = Date r, col_Block = Block r, col_Demand = Demand r,
               col_OA_Used_MW = oa, col_Bank_Adjustment_MW = bank,
               col_Net_Demand_kWh =
                 Demand r - oa * DEMAND_CONVERSION_FACTOR + bank * DEMAND_CONVERSION_FACTOR,
               col_Must_Run_Generators_Used_kWh = Must_Run_Generators_Used_kWh r,
               col_Must_Run_Generator_Details = Must_Run_Generator_Details r,
               col_Available_Generators_Used_kWh = Available_Generators_Used_kWh r,
               col_Available_Generator_Details = Available_Generator_Details r,
               col_Grid_Consumption_kWh = Grid_Consumption_kWh r,
               col_Grid_Rate = Grid_Rate r,
               col_Total_Cost = Total_Cost r\<rparr>
      | _ \<Rightarrow> Inl TypeError)"

fun report_rows :: "block_result list \<Rightarrow> py_error + report_row list" where
  "report_rows [] = Inr []"
| "report_rows (r # rs) =
     (case report_row_of r of
        Inl e \<Rightarrow> Inl e
      | Inr row \<Rightarrow> (case report_rows rs of Inl e \<Rightarrow> Inl e | Inr later \<Rightarrow> Inr (row # later)))"

text \<open>
  The submission loops of \<^verbatim>\<open>run_normal\<close>, from the parsed dates on: the rows of the
  demand sheet within the date range, in sheet order, each with the blocks of the range.
\<close>

definition submit_tasks ::
  "dataframe \<Rightarrow> date \<Rightarrow> date \<Rightarrow> int \<Rightarrow> int \<Rightarrow> py_error + task list" where
  "submit_tasks df_demand start_date end_date start_block end_block =
     (let df_filtered =
            filter (\<lambda>row. start_date \<le> fst row \<and> fst row \<le> end_date) (rows df_demand)
      in submit_rows df_demand df_filtered [start_block..end_block])"

text \<open>
  \<^verbatim>\<open>run_normal\<close>. \<open>as_completed\<close> gives the order in which the submitted tasks
  complete. The rows of the report are built from the collected results as they stand in
  that list. With no result at all the frame has no \<^verbatim>\<open>Demand\<close> column and the derived
  column raises KeyError.
\<close>

definition run_normal ::
  "solver \<Rightarrow> globals \<Rightarrow> dataframe \<Rightarrow> generator list \<Rightarrow> date \<Rightarrow> date \<Rightarrow> int \<Rightarrow> int
     \<Rightarrow> (task list \<Rightarrow> task list) \<Rightarrow> py_error + report_row list" where
  "run_normal solve glob df_demand df_generators start_date end_date start_block end_block
     as_completed =
     (case submit_tasks df_demand start_date end_date start_block end_block of
        Inl e \<Rightarrow> Inl e
      | Inr futures \<Rightarrow>
          (let results = collect_results solve glob df_generators (as_completed futures)
           in if results = [] then Inl KeyError else report_rows results))"

text \<open>Rows in the order date, then block.\<close>

definition sorted_by_date_block :: "report_row list \<Rightarrow> bool" where
  "sorted_by_date_block report =
     sorted_wrt (\<lambda>a b. col_Date a < col_Date b
                       \<or> (col_Date a = col_Date b \<and> col_Block a \<le> col_Block b)) report"

subsection \<open>What is assumed of the solver\<close>

text \<open>
  A solution respects a problem when every variable of the problem lies within its bounds
  and every constraint holds. The solver respects a call when the solution it reports as
  Optimal does; nothing is assumed of a solution reported otherwise, nor that the
  solution is a maximum.
\<close>

definition lp_feasible :: "lp_problem \<Rightarrow> gen_power_vars \<Rightarrow> (string \<Rightarrow> real) \<Rightarrow> bool" where
  "lp_feasible prob vars val =
     (list_all (\<lambda>n. case vars n of
                      Some v \<Rightarrow> lowBound v \<le> val n \<and> val n \<le> upBound v
                    | None \<Rightarrow> True)
        (objective prob @ concat (map fst (constraints prob)))
      \<and> list_all (\<lambda>(ns, rhs). sum_list (map val ns) \<le> rhs) (constraints prob))"

definition solver_respects :: "solver \<Rightarrow> solver_call \<Rightarrow> bool" where
  "solver_respects solve call =
     (case solve (fst call) (snd call) of
        Inl e \<Rightarrow> True
      | Inr sol \<Rightarrow>
          status sol = Optimal \<longrightarrow> lp_feasible (fst call) (snd call) (varValue sol))"

subsection \<open>A reference solver and sample data\<close>

text \<open>
  To run the model on concrete inputs, a solver for the problems this program builds
  (maximize a sum of variables under one constraint on the same sum): it fills the
  variables in order, each up to its bound, until the right-hand side is used up. A name
  listed \<open>k\<close> times takes \<open>k\<close> shares.
\<close>

fun fill ::
  "gen_power_vars \<Rightarrow> string list \<Rightarrow> string list \<Rightarrow> real \<Rightarrow> (string \<Rightarrow> real) \<Rightarrow> string \<Rightarrow> real" where
  "fill vars ns [] r val = val"
| "fill vars ns (n # rest) r val =
     (let k = real (count_list ns n);
          ub = (case vars n of Some v \<Rightarrow> upBound v | None \<Rightarrow> 0);
          x = min ub (r / k)
      in fill vars ns rest (r - k * x) (val(n := x)))"

definition greedy_solver :: solver where
  "greedy_solver prob vars =
     (case constraints prob of
        [(ns, rhs)] \<Rightarrow>
          if rhs < 0 \<or> \<not> list_all (\<lambda>n. case vars n of
                                        Some v \<Rightarrow> lowBound v \<le> 0 \<and> 0 \<le> upBound v
                                      | None \<Rightarrow> False) ns
          then Inr \<lparr>status = Infeasible, varValue = (\<lambda>_. 0)\<rparr>
          else Inr \<lparr>status = Optimal, varValue = fill vars ns (remdups ns) rhs (\<lambda>_. 0)\<rparr>
      | _ \<Rightarrow> Inl PulpSolverError)"

text \<open>A sheet with one row per date of \<open>ds\<close> and one block column \<open>b\<close> holding \<open>v\<close>.\<close>

definition sheet :: "date list \<Rightarrow> int \<Rightarrow> real \<Rightarrow> dataframe" where
  "sheet ds b v =
     \<lparr>columns = [StrLabel ''Date'', IntLabel b],
      rows = map (\<lambda>d. (d, (\<lambda>_. 0)(IntLabel b := v))) ds\<rparr>"

definition no_rows :: dataframe where
  "no_rows = \<lparr>columns = [StrLabel ''Date''], rows = []\<rparr>"

text \<open>
  The example of the specification: must-run generator A (0.1 MW, cost 2), available
  generator B (0.2 MW, cost 3), grid rate 5, no open-access and no bank rows, at
  block 1 of the dates 1 and 2.
\<close>

definition gen_A :: generator where
  "gen_A = \<lparr>Code = ''A'', name = ''Plant A'', Type_of_Plant = ''Must run'', variable_cost = 2\<rparr>"

definition gen_B :: generator where
  "gen_B = \<lparr>Code = ''B'', name = ''Plant B'', Type_of_Plant = ''Available'', variable_cost = 3\<rparr>"

text \<open>A must-run generator whose code has no availability sheet.\<close>

definition gen_C :: generator where
  "gen_C = \<lparr>Code = ''C'', name = ''Plant C'', Type_of_Plant = ''Must run'', variable_cost = 4\<rparr>"

definition example_globals :: globals where
  "example_globals =
     \<lparr>preloaded_generators = [''A'' \<mapsto> sheet [1, 2] 1 0.1, ''B'' \<mapsto> sheet [1, 2] 1 0.2],
      grid_cost_table = sheet [1, 2] 1 5, oa_table = no_rows, bank_table = no_rows\<rparr>"





text \<open>A demand of 100 MW at block 1 of the dates 1 and 2; an open-access entry of 10 MW.\<close>

definition example_demand :: dataframe where
  "example_demand = sheet [1, 2] 1 100"

definition oa_globals :: globals where
  "oa_globals = example_globals\<lparr>oa_table := sheet [1, 2] 1 10\<rparr>"

text \<open>The report row of the example block at date \<open>d\<close>.\<close>

definition example_row :: "date \<Rightarrow> report_row" where
  "example_row d =
     \<lparr>col_Date = d, col_Block = 1, col_Demand = 25000, col_OA_Used_MW = 0,
      col_Bank_Adjustment_MW = 0, col_Net_Demand_kWh = 25000,
      col_Must_Run_Generators_Used_kWh = 25,
      col_Must_Run_Generator_Details = [(''A'', 25, 50)],
      col_Available_Generators_Used_kWh = 50,
      col_Available_Generator_Details = [(''B'', 50, 150)],
      col_Grid_Consumption_kWh = 24925, col_Grid_Rate = 5, col_Total_Cost = 124825\<rparr>"

section \<open>Properties\<close>

lemmas model_defs =
  process_block_def optimize_power_for_demand_def optimize_available_generators_def
  calculate_must_run_power_def setup_optimization_problem_def lpSum_vars_def
  load_grid_cost_def adjust_demand_with_open_access_def adjust_demand_with_bank_def
  loc_values0_def rows_on_def net_demand_def DEMAND_CONVERSION_FACTOR_def
  MUST_RUN_TYPE_def AVAILABLE_TYPE_def str_def lp_feasible_def solver_respects_def
  table_entry_def availability_bound_def available_of_def

lemmas run_defs = run_normal_def submit_tasks_def collect_results_def report_row_of_def
  sorted_by_date_block_def List.map_filter_def

lemmas sample_defs =
  greedy_solver_def sheet_def no_rows_def gen_A_def gen_B_def example_globals_def

subsection \<open>The table lookups\<close>

lemma load_grid_cost_entry:
  "load_grid_cost date block df =
     (case table_entry df date block of None \<Rightarrow> Inl ValueError | Some v \<Rightarrow> Inr v)"
  by (simp add: load_grid_cost_def table_entry_def Let_def split: list.splits)

lemma adjust_oa_entry:
  "adjust_demand_with_open_access date block demand_mw df =
     (case table_entry df date block of
        None \<Rightarrow> (demand_mw * DEMAND_CONVERSION_FACTOR, 0)
      | Some v \<Rightarrow> ((demand_mw - v) * DEMAND_CONVERSION_FACTOR, v))"
  by (simp add: adjust_demand_with_open_access_def table_entry_def Let_def split: list.splits)

lemma adjust_bank_entry:
  "adjust_demand_with_bank date block demand_kwh df =
     (case table_entry df date block of
        None \<Rightarrow> (demand_kwh, 0)
      | Some v \<Rightarrow> (demand_kwh + v * DEMAND_CONVERSION_FACTOR, v))"
  by (simp add: adjust_demand_with_bank_def table_entry_def Let_def split: list.splits)

subsection \<open>The shape of a successful block\<close>

lemma process_block_alt:
  "process_block solve glob demand date block gens =
     (case optimize_power_for_demand solve glob (net_demand glob demand date block) date block
             gens (fst (setup_optimization_problem gens)) (snd (setup_optimization_problem gens)) of
        (Inl e, calls) \<Rightarrow> (None, calls)
      | (Inr result, calls) \<Rightarrow>
          (Some (result\<lparr>OA_Used_MW :=
                     Some (snd (adjust_demand_with_open_access date block demand (oa_table glob))),
                   Bank_Adjustment_MW :=
                     Some (snd (adjust_demand_with_bank date block
                             (fst (adjust_demand_with_open_access date block demand (oa_table glob)))
                             (bank_table glob)))\<rparr>), calls))"
  by (simp add: process_block_def net_demand_def Let_def case_prod_beta)


lemma process_block_Some:
  assumes "fst (process_block solve glob demand date block gens) = Some r"
  obtains mp mc md gc met cost det where
    "calculate_must_run_power glob gens date block = Inr (mp, mc, md)"
    "0 < net_demand glob demand date block - mp"
    "load_grid_cost date block (grid_cost_table glob) = Inr gc"
    "optimize_available_generators solve glob (net_demand glob demand date block - mp) date block
       gens (fst (setup_optimization_problem gens)) (snd (setup_optimization_problem gens))
     = (Inr (met, cost, det), snd (process_block solve glob demand date block gens))"
    "r = \<lparr>Date = date, Block = block, Demand = net_demand glob demand date block,
          Total_Demand_Met = net_demand glob demand date block,
          Must_Run_Generators_Used_kWh = mp,
          Available_Generators_Used_kWh = met,
          Grid_Consumption_kWh = (if met < net_demand glob demand date block - mp then net_demand glob demand date block - mp - met else 0),
          Total_Cost = (if met < net_demand glob demand date block - mp then mc + cost + (net_demand glob demand date block - mp - met) * gc else mc + cost),
          Grid_Rate = gc,
          OA_Used_MW = Some (snd (adjust_demand_with_open_access date block demand (oa_table glob))),
          Bank_Adjustment_MW = Some (snd (adjust_demand_with_bank date block
            (fst (adjust_demand_with_open_access date block demand (oa_table glob))) (bank_table glob))),
          Must_Run_Generator_Details = md,
          Available_Generator_Details = det\<rparr>"
  using assms
  unfolding process_block_def optimize_power_for_demand_def net_demand_def
  by (auto simp: Let_def split: prod.splits sum.splits if_splits)

lemma available_optimal_or_zero:
  assumes "optimize_available_generators solve glob rem date block gens prob gv
             = (Inr (met, cost, det), calls)"
  shows "(met = 0 \<and> cost = 0 \<and> det = [])
       \<or> (\<exists>vars' sol.
            set_upBounds glob date block (available_of gens) gv = Inr vars'
          \<and> list_all (\<lambda>g. vars' (name g) \<noteq> None) (available_of gens)
          \<and> calls = [(prob\<lparr>objective := map name (available_of gens),
                             constraints := constraints prob @ [(map name (available_of gens), rem)]\<rparr>, vars')]
          \<and> solve (prob\<lparr>objective := map name (available_of gens),
                             constraints := constraints prob @ [(map name (available_of gens), rem)]\<rparr>) vars' = Inr sol
          \<and> status sol = Optimal
          \<and> met = sum_list (map (\<lambda>g. varValue sol (name g)) (available_of gens))
          \<and> cost = sum_list (map (\<lambda>g. varValue sol (name g) * variable_cost g) (available_of gens))
          \<and> det = map (\<lambda>g. (Code g, varValue sol (name g), varValue sol (name g) * variable_cost g)) (available_of gens))"
  using assms
  unfolding optimize_available_generators_def available_of_def lpSum_vars_def
  by (auto simp: Let_def split: sum.splits if_splits)

lemma available_met_le:
  assumes res: "optimize_available_generators solve glob rem date block gens prob gv
             = (Inr (met, cost, det), calls)"
      and resp: "list_all (solver_respects solve) calls"
      and rem: "0 \<le> rem"
  shows "met \<le> rem"
proof -
  from available_optimal_or_zero [OF res] show ?thesis
  proof (elim disjE exE conjE)
    assume "met = 0"
    with rem show ?thesis by simp
  next
    fix vars' sol
    let ?p = "prob\<lparr>objective := map name (available_of gens),
                   constraints := constraints prob @ [(map name (available_of gens), rem)]\<rparr>"
    assume calls: "calls = [(?p, vars')]"
       and sol: "solve ?p vars' = Inr sol" "status sol = Optimal"
       and met: "met = sum_list (map (\<lambda>g. varValue sol (name g)) (available_of gens))"
    from resp calls sol have "lp_feasible ?p vars' (varValue sol)"
      by (simp add: solver_respects_def)
    then have "sum_list (map (varValue sol) (map name (available_of gens))) \<le> rem"
      by (simp add: lp_feasible_def)
    with met show ?thesis by (simp add: comp_def)
  qed
qed

subsection \<open>The must-run loop\<close>

lemma must_run_loop_fails:
  assumes "g \<in> set gs" "preloaded_generators glob (Code g) = Some df"
          "loc_values0 df date block = Inl e"
  shows "\<exists>e'. must_run_loop glob date block gs acc = Inl e'"
  using assms
proof (induction gs arbitrary: acc)
  case Nil
  then show ?case by simp
next
  case (Cons h gs)
  obtain p c d where acc: "acc = (p, c, d)" by (cases acc) auto
  show ?case
  proof (cases "h = g")
    case True
    with Cons.prems acc show ?thesis by simp
  next
    case False
    with Cons.prems have "g \<in> set gs" by simp
    from Cons.IH [OF this Cons.prems(2,3)] acc show ?thesis
      by (auto simp: Let_def split: option.splits sum.splits)
  qed
qed

lemma must_run_loop_skips:
  "must_run_loop glob date block (filter (\<lambda>g. preloaded_generators glob (Code g) \<noteq> None) gs) acc
     = must_run_loop glob date block gs acc"
proof (induction gs arbitrary: acc)
  case Nil
  show ?case by simp
next
  case (Cons h gs)
  obtain p c d where acc: "acc = (p, c, d)" by (cases acc) auto
  show ?case
    unfolding acc using Cons.IH
    by (auto simp: Let_def split: option.splits sum.splits)
qed

lemma must_run_loop_sums:
  assumes "must_run_loop glob date block gs (p0, c0, d0) = Inr (p, c, d)"
  shows "p - p0 = sum_list (map (fst \<circ> snd) d) - sum_list (map (fst \<circ> snd) d0)
       \<and> c - c0 = sum_list (map (snd \<circ> snd) d) - sum_list (map (snd \<circ> snd) d0)"
  using assms
proof (induction gs arbitrary: p0 c0 d0)
  case Nil
  then show ?case by simp
next
  case (Cons h gs)
  show ?case
  proof (cases "preloaded_generators glob (Code h)")
    case None
    with Cons show ?thesis by simp
  next
    case (Some df)
    with Cons.prems obtain q where q: "loc_values0 df date block = Inr q"
      and rest: "must_run_loop glob date block gs
                   (p0 + q * DEMAND_CONVERSION_FACTOR,
                    c0 + q * DEMAND_CONVERSION_FACTOR * variable_cost h,
                    d0 @ [(Code h, q * DEMAND_CONVERSION_FACTOR,
                           q * DEMAND_CONVERSION_FACTOR * variable_cost h)]) = Inr (p, c, d)"
      by (auto simp: Let_def split: sum.splits)
    from Cons.IH [OF rest] show ?thesis by simp
  qed
qed

subsection \<open>The variables and their bounds\<close>




subsection \<open>The collected results and the report rows\<close>

lemma mset_map_filter:
  assumes "mset xs = mset ys"
  shows "mset (List.map_filter f xs) = mset (List.map_filter f ys)"
proof -
  have "mset (List.map_filter f zs) = image_mset (the \<circ> f) (filter_mset (\<lambda>x. f x \<noteq> None) (mset zs))"
    for zs
    by (simp add: List.map_filter_def)
  with assms show ?thesis by simp
qed

lemma report_rows_map:
  assumes "report_rows rs = Inr rep"
  shows "rep = map (projr \<circ> report_row_of) rs \<and> list_all (\<lambda>r. (\<exists>row. report_row_of r = Inr row)) rs"
  using assms
  by (induction rs arbitrary: rep) (auto split: sum.splits)

lemma report_row_of_key:
  assumes "(\<exists>row. report_row_of r = Inr row)"
  shows "col_Date (projr (report_row_of r)) = Date r \<and> col_Block (projr (report_row_of r)) = Block r"
  using assms
  by (auto simp: report_row_of_def split: option.splits)

lemma collect_results_keys:
  "map (\<lambda>r. (Date r, Block r)) (collect_results solve glob gens ts)
     = map (\<lambda>t. (fst (snd t), snd (snd t)))
         (filter (\<lambda>t. fst (process_block solve glob (fst t) (fst (snd t)) (snd (snd t)) gens) \<noteq> None) ts)"
proof (induction ts)
  case Nil
  show ?case by (simp add: collect_results_def)
next
  case (Cons t ts)
  obtain d dt b where t: "t = (d, dt, b)" by (cases t) auto
  show ?case
  proof (cases "fst (process_block solve glob d dt b gens)")
    case None
    with Cons.IH t show ?thesis
      by (simp add: collect_results_def)
  next
    case (Some r)
    then have "Date r = dt \<and> Block r = b"
      by (rule process_block_Some) simp
    with Cons.IH t Some show ?thesis
      by (simp add: collect_results_def)
  qed
qed

subsection \<open>The example run\<close>

lemma example_tasks: "submit_tasks example_demand 1 2 1 1 = Inr [(100, 1, 1), (100, 2, 1)]"
  by (simp add: run_defs sample_defs example_demand_def)

lemma example_block:
  "d = 1 \<or> d = 2 \<Longrightarrow>
   fst (process_block greedy_solver example_globals 100 d 1 [gen_A, gen_B])
     = Some \<lparr>Date = d, Block = 1, Demand = 25000, Total_Demand_Met = 25000,
      Must_Run_Generators_Used_kWh = 25, Available_Generators_Used_kWh = 50,
      Grid_Consumption_kWh = 24925, Total_Cost = 124825, Grid_Rate = 5,
      OA_Used_MW = Some 0, Bank_Adjustment_MW = Some 0,
      Must_Run_Generator_Details = [(''A'', 25, 50)],
      Available_Generator_Details = [(''B'', 50, 150)]\<rparr>"
  by (auto simp: model_defs sample_defs Let_def)

lemma example_run_id:
  "run_normal greedy_solver example_globals example_demand [gen_A, gen_B] 1 2 1 1 id
     = Inr [example_row 1, example_row 2]"
  by (simp add: run_normal_def example_tasks collect_results_def List.map_filter_def example_block
        report_row_of_def example_row_def DEMAND_CONVERSION_FACTOR_def)

lemma example_run_rev:
  "run_normal greedy_solver example_globals example_demand [gen_A, gen_B] 1 2 1 1 rev
     = Inr [example_row 2, example_row 1]"
  by (simp add: run_normal_def example_tasks collect_results_def List.map_filter_def example_block
        report_row_of_def example_row_def DEMAND_CONVERSION_FACTOR_def)

subsection \<open>C1: conservation of energy\<close>

text \<open>
  C1. For every block whose dispatch succeeds, the must-run energy plus the
  available-generator energy plus the grid energy equals the net demand (the demand after
  the open-access and bank adjustments, in kWh) that was handed to the block's
  optimization. The solver is assumed to respect the constraint of the problem it was
  given whenever it reports Optimal.
\<close>

theorem conservation:
  assumes ok: "fst (process_block solve glob demand date block gens) = Some r"
      and resp: "list_all (solver_respects solve) (snd (process_block solve glob demand date block gens))"
  shows "Must_Run_Generators_Used_kWh r + Available_Generators_Used_kWh r + Grid_Consumption_kWh r
           = net_demand glob demand date block"
proof -
  from ok obtain mp met cost det where
      rem: "0 < net_demand glob demand date block - mp"
    and opt: "optimize_available_generators solve glob (net_demand glob demand date block - mp) date block
       gens (fst (setup_optimization_problem gens)) (snd (setup_optimization_problem gens))
     = (Inr (met, cost, det), snd (process_block solve glob demand date block gens))"
    and mr: "Must_Run_Generators_Used_kWh r = mp"
    and av: "Available_Generators_Used_kWh r = met"
    and gr: "Grid_Consumption_kWh r = (if met < net_demand glob demand date block - mp then net_demand glob demand date block - mp - met else 0)"
    by (rule process_block_Some) simp
  from available_met_le [OF opt resp] rem have "met \<le> net_demand glob demand date block - mp"
    by simp
  with mr av gr show ?thesis by simp
qed

theorem conservation_witness:
  "fst (process_block greedy_solver example_globals 100 1 1 [gen_A, gen_B]) \<noteq> None
   \<and> list_all (solver_respects greedy_solver)
        (snd (process_block greedy_solver example_globals 100 1 1 [gen_A, gen_B]))
   \<and> net_demand example_globals 100 1 1 = 25000
   \<and> (\<exists>r. fst (process_block greedy_solver example_globals 100 1 1 [gen_A, gen_B]) = Some r
          \<and> Must_Run_Generators_Used_kWh r = 25 \<and> Available_Generators_Used_kWh r = 50
          \<and> Grid_Consumption_kWh r = 24925
          \<and> Must_Run_Generators_Used_kWh r + Available_Generators_Used_kWh r + Grid_Consumption_kWh r
           = net_demand example_globals 100 1 1)"
proof -
  let ?r = "\<lparr>Date = 1, Block = 1, Demand = 25000, Total_Demand_Met = 25000,
      Must_Run_Generators_Used_kWh = 25, Available_Generators_Used_kWh = 50,
      Grid_Consumption_kWh = 24925, Total_Cost = 124825, Grid_Rate = 5,
      OA_Used_MW = Some 0, Bank_Adjustment_MW = Some 0,
      Must_Run_Generator_Details = [(''A'', 25, 50)],
      Available_Generator_Details = [(''B'', 50, 150)]\<rparr>"
  have ok: "fst (process_block greedy_solver example_globals 100 1 1 [gen_A, gen_B]) = Some ?r"
    by (simp add: model_defs sample_defs Let_def)
  have resp: "list_all (solver_respects greedy_solver)
        (snd (process_block greedy_solver example_globals 100 1 1 [gen_A, gen_B]))"
    by (simp add: model_defs sample_defs Let_def)
  have nd: "net_demand example_globals 100 1 1 = 25000"
    by (simp add: model_defs sample_defs)
  from conservation [OF ok resp] ok resp nd show ?thesis by simp
qed

subsection \<open>C2: must-run generators without data\<close>

text \<open>
  C2, as stated: a block with a must-run generator that has no availability sheet or no
  entry for the date and block fails, and such a generator never silently contributes 0
  to a successful result. The source guards the lookup with
  \<^verbatim>\<open>if generator_data is not None\<close>, so a must-run generator without a sheet is passed
  over: the block below succeeds with must-run energy 0 and no detail line for it.
\<close>

theorem must_run_without_sheet_counterexample:
  "gen_C \<in> set [gen_C, gen_B] \<and> Type_of_Plant gen_C = MUST_RUN_TYPE
   \<and> preloaded_generators example_globals (Code gen_C) = None
   \<and> fst (process_block greedy_solver example_globals 100 1 1 [gen_C, gen_B])
       = Some \<lparr>Date = 1, Block = 1, Demand = 25000, Total_Demand_Met = 25000,
               Must_Run_Generators_Used_kWh = 0, Available_Generators_Used_kWh = 50,
               Grid_Consumption_kWh = 24950, Total_Cost = 124900, Grid_Rate = 5,
               OA_Used_MW = Some 0, Bank_Adjustment_MW = Some 0,
               Must_Run_Generator_Details = [],
               Available_Generator_Details = [(''B'', 50, 150)]\<rparr>"
  by (simp add: model_defs sample_defs gen_C_def Let_def)

text \<open>
  C2, amended. For every block containing a must-run generator that has an availability
  sheet but no entry in it for the date and block (no column for the block, or no row for
  the date), the lookup raises and the block fails, without any solver call. A must-run
  generator with no sheet at all is passed over: the must-run allocation is the one of
  the generators that have a sheet.
\<close>

theorem must_run_missing_entry_fails:
  "(g \<in> set gens \<and> Type_of_Plant g = MUST_RUN_TYPE
      \<and> preloaded_generators glob (Code g) = Some df \<and> loc_values0 df date block = Inl e
     \<longrightarrow> process_block solve glob demand date block gens = (None, []))
   \<and> calculate_must_run_power glob gens date block
       = calculate_must_run_power glob
           (filter (\<lambda>g. preloaded_generators glob (Code g) \<noteq> None) gens) date block"
proof (intro conjI impI)
  assume a: "g \<in> set gens \<and> Type_of_Plant g = MUST_RUN_TYPE
      \<and> preloaded_generators glob (Code g) = Some df \<and> loc_values0 df date block = Inl e"
  then have "g \<in> set (filter (\<lambda>g. Type_of_Plant g = MUST_RUN_TYPE) gens)" by simp
  from must_run_loop_fails [OF this, of glob df date block e "(0, 0, [])"] a
  obtain e' where "calculate_must_run_power glob gens date block = Inl e'"
    by (auto simp: calculate_must_run_power_def)
  then show "process_block solve glob demand date block gens = (None, [])"
    by (simp add: process_block_alt optimize_power_for_demand_def)
next
  have eq: "filter (\<lambda>g. Type_of_Plant g = MUST_RUN_TYPE)
          (filter (\<lambda>g. preloaded_generators glob (Code g) \<noteq> None) gens)
        = filter (\<lambda>g. preloaded_generators glob (Code g) \<noteq> None)
            (filter (\<lambda>g. Type_of_Plant g = MUST_RUN_TYPE) gens)"
    by (simp add: conj_commute)
  show "calculate_must_run_power glob gens date block
       = calculate_must_run_power glob
           (filter (\<lambda>g. preloaded_generators glob (Code g) \<noteq> None) gens) date block"
    unfolding calculate_must_run_power_def eq by (rule must_run_loop_skips [symmetric])
qed

theorem must_run_missing_entry_fails_witness:
  "gen_A \<in> set [gen_C, gen_A, gen_B] \<and> Type_of_Plant gen_A = MUST_RUN_TYPE
   \<and> preloaded_generators example_globals (Code gen_A) = Some (sheet [1, 2] 1 0.1)
   \<and> loc_values0 (sheet [1, 2] 1 0.1) 3 1 = Inl IndexError
   \<and> process_block greedy_solver example_globals 100 3 1 [gen_C, gen_A, gen_B] = (None, [])
   \<and> calculate_must_run_power example_globals [gen_C, gen_A, gen_B] 1 1
       = calculate_must_run_power example_globals [gen_A, gen_B] 1 1"
proof -
  have a: "gen_A \<in> set [gen_C, gen_A, gen_B] \<and> Type_of_Plant gen_A = MUST_RUN_TYPE
   \<and> preloaded_generators example_globals (Code gen_A) = Some (sheet [1, 2] 1 0.1)
   \<and> loc_values0 (sheet [1, 2] 1 0.1) 3 1 = Inl IndexError"
    by (simp add: model_defs sample_defs gen_C_def)
  have f: "filter (\<lambda>g. preloaded_generators example_globals (Code g) \<noteq> None) [gen_C, gen_A, gen_B]
             = [gen_A, gen_B]"
    by (simp add: sample_defs gen_C_def)
  from must_run_missing_entry_fails
         [of gen_A "[gen_C, gen_A, gen_B]" example_globals "sheet [1, 2] 1 0.1" 3 1 IndexError
             greedy_solver 100] a
  have "process_block greedy_solver example_globals 100 3 1 [gen_C, gen_A, gen_B] = (None, [])"
    by blast
  moreover from must_run_missing_entry_fails
         [of gen_A "[gen_C, gen_A, gen_B]" example_globals "sheet [1, 2] 1 0.1" 1 1 IndexError
             greedy_solver 100]
  have "calculate_must_run_power example_globals [gen_C, gen_A, gen_B] 1 1
       = calculate_must_run_power example_globals [gen_A, gen_B] 1 1"
    unfolding f by blast
  ultimately show ?thesis using a by blast
qed

subsection \<open>C3: missing grid rate\<close>

text \<open>
  C3, as stated: a block fails for a missing grid rate if and only if the residual is
  positive and no grid-rate entry exists; with residual 0 a missing entry does not fail
  the block. The source loads the grid rate before the optimization, for every block
  whose remaining demand is not negative, and returns \<^verbatim>\<open>None\<close> when the lookup
  raises. Below, generator B covers the whole remaining demand (the same block with a
  grid rate has grid consumption 0), and without a grid rate the block fails.
\<close>

theorem grid_rate_zero_residual_counterexample:
  "table_entry (grid_cost_table (example_globals\<lparr>grid_cost_table := no_rows\<rparr>)) 1 1 = None
   \<and> process_block greedy_solver (example_globals\<lparr>grid_cost_table := no_rows\<rparr>) 0.3 1 1
        [gen_A, gen_B] = (None, [])
   \<and> fst (process_block greedy_solver example_globals 0.3 1 1 [gen_A, gen_B])
       = Some \<lparr>Date = 1, Block = 1, Demand = 75, Total_Demand_Met = 75,
               Must_Run_Generators_Used_kWh = 25, Available_Generators_Used_kWh = 50,
               Grid_Consumption_kWh = 0, Total_Cost = 200, Grid_Rate = 5,
               OA_Used_MW = Some 0, Bank_Adjustment_MW = Some 0,
               Must_Run_Generator_Details = [(''A'', 25, 50)],
               Available_Generator_Details = [(''B'', 50, 150)]\<rparr>"
  by (simp add: model_defs sample_defs Let_def)

text \<open>
  C3, amended. A block fails for a missing grid rate (\<^verbatim>\<open>optimize_power_for_demand\<close>
  ends at its "Error loading grid cost" return) if and only if the must-run allocation
  succeeded, the must-run energy does not exceed the net demand, and the grid-cost table
  has no entry for the date and block; the residual plays no part. Such a block has no
  result and the solver is not called.
\<close>

theorem grid_rate_failure_iff:
  "(fst (optimize_power_for_demand solve glob demand_kwh date block gens prob gv) = Inl GridCostError
    \<longleftrightarrow> (\<exists>mp mc md. calculate_must_run_power glob gens date block = Inr (mp, mc, md)
                 \<and> mp \<le> demand_kwh
                 \<and> table_entry (grid_cost_table glob) date block = None))
   \<and> (fst (optimize_power_for_demand solve glob (net_demand glob demand date block) date block gens
             (fst (setup_optimization_problem gens)) (snd (setup_optimization_problem gens)))
         = Inl GridCostError
       \<longrightarrow> process_block solve glob demand date block gens = (None, []))"
proof (intro conjI impI)
  show "fst (optimize_power_for_demand solve glob demand_kwh date block gens prob gv) = Inl GridCostError
    \<longleftrightarrow> (\<exists>mp mc md. calculate_must_run_power glob gens date block = Inr (mp, mc, md)
                 \<and> mp \<le> demand_kwh
                 \<and> table_entry (grid_cost_table glob) date block = None)"
    unfolding optimize_power_for_demand_def load_grid_cost_entry
    by (auto simp: Let_def split: sum.splits prod.splits option.splits if_splits)
next
  assume "fst (optimize_power_for_demand solve glob (net_demand glob demand date block) date block gens
             (fst (setup_optimization_problem gens)) (snd (setup_optimization_problem gens)))
         = Inl GridCostError"
  then show "process_block solve glob demand date block gens = (None, [])"
    unfolding process_block_alt optimize_power_for_demand_def
    by (auto simp: Let_def split: sum.splits prod.splits option.splits if_splits)
qed

theorem grid_rate_failure_iff_witness:
  "table_entry (grid_cost_table (example_globals\<lparr>grid_cost_table := no_rows\<rparr>)) 1 1 = None
   \<and> calculate_must_run_power (example_globals\<lparr>grid_cost_table := no_rows\<rparr>) [gen_A, gen_B] 1 1
        = Inr (25, 50, [(''A'', 25, 50)])
   \<and> fst (optimize_power_for_demand greedy_solver (example_globals\<lparr>grid_cost_table := no_rows\<rparr>)
            (net_demand (example_globals\<lparr>grid_cost_table := no_rows\<rparr>) 100 1 1) 1 1 [gen_A, gen_B]
            (fst (setup_optimization_problem [gen_A, gen_B]))
            (snd (setup_optimization_problem [gen_A, gen_B]))) = Inl GridCostError
   \<and> process_block greedy_solver (example_globals\<lparr>grid_cost_table := no_rows\<rparr>) 100 1 1
        [gen_A, gen_B] = (None, [])"
proof -
  let ?G = "example_globals\<lparr>grid_cost_table := no_rows\<rparr>"
  have a: "table_entry (grid_cost_table ?G) 1 1 = None"
    by (simp add: model_defs sample_defs)
  have b: "calculate_must_run_power ?G [gen_A, gen_B] 1 1 = Inr (25, 50, [(''A'', 25, 50)])"
    by (simp add: model_defs sample_defs)
  have c: "(25::real) \<le> net_demand ?G 100 1 1"
    by (simp add: model_defs sample_defs)
  note t = grid_rate_failure_iff [of greedy_solver ?G "net_demand ?G 100 1 1" 1 1 "[gen_A, gen_B]"
             "fst (setup_optimization_problem [gen_A, gen_B])"
             "snd (setup_optimization_problem [gen_A, gen_B])" 100]
  from a b c have "\<exists>mp mc md. calculate_must_run_power ?G [gen_A, gen_B] 1 1 = Inr (mp, mc, md)
                 \<and> mp \<le> net_demand ?G 100 1 1 \<and> table_entry (grid_cost_table ?G) 1 1 = None"
    by blast
  with t have d: "fst (optimize_power_for_demand greedy_solver ?G (net_demand ?G 100 1 1) 1 1
            [gen_A, gen_B] (fst (setup_optimization_problem [gen_A, gen_B]))
            (snd (setup_optimization_problem [gen_A, gen_B]))) = Inl GridCostError"
    by blast
  with t have "process_block greedy_solver ?G 100 1 1 [gen_A, gen_B] = (None, [])"
    by blast
  with a b d show ?thesis by blast
qed

subsection \<open>C4: negative remaining demand\<close>

text \<open>
  C4. For every block where the net demand minus the must-run energy is negative, the
  block fails (\<^verbatim>\<open>process_block\<close> returns \<^verbatim>\<open>None\<close>, and the collected results, from
  which the report is built, do not hold it) and no problem is handed to the solver;
  \<^verbatim>\<open>optimize_power_for_demand\<close> ends at its "Invalid remaining demand" return, the
  negative value is not replaced by 0.
\<close>

theorem negative_remaining_fails:
  assumes "calculate_must_run_power glob gens date block = Inr (mp, mc, md)"
      and "net_demand glob demand date block - mp < 0"
  shows "process_block solve glob demand date block gens = (None, [])
       \<and> optimize_power_for_demand solve glob (net_demand glob demand date block) date block gens
            (fst (setup_optimization_problem gens)) (snd (setup_optimization_problem gens))
           = (Inl InvalidRemainingDemand, [])
       \<and> collect_results solve glob gens [(demand, date, block)] = []"
proof -
  from assms have opt: "optimize_power_for_demand solve glob (net_demand glob demand date block)
            date block gens prob gv = (Inl InvalidRemainingDemand, [])" for prob gv
    by (simp add: optimize_power_for_demand_def Let_def)
  then show ?thesis
    by (simp add: process_block_alt collect_results_def)
qed

theorem negative_remaining_fails_witness:
  "calculate_must_run_power example_globals [gen_A, gen_B] 1 1 = Inr (25, 50, [(''A'', 25, 50)])
   \<and> net_demand example_globals 0.05 1 1 - 25 < 0
   \<and> process_block greedy_solver example_globals 0.05 1 1 [gen_A, gen_B] = (None, [])
   \<and> collect_results greedy_solver example_globals [gen_A, gen_B] [(0.05, 1, 1)] = []"
proof -
  have a: "calculate_must_run_power example_globals [gen_A, gen_B] 1 1 = Inr (25, 50, [(''A'', 25, 50)])"
    by (simp add: model_defs sample_defs)
  have b: "net_demand example_globals 0.05 1 1 - 25 < 0"
    by (simp add: model_defs sample_defs)
  from negative_remaining_fails [OF a b, of greedy_solver] a b show ?thesis by simp
qed

subsection \<open>C5: a missing open-access or bank row counts as 0\<close>

text \<open>
  C5. For every date, block and demand: when the open-access table (respectively the bank
  table) has no entry for that key, the adjustment returns the same demand in kWh and
  the same reported adjustment as it does for a table whose entry is 0, the reported
  adjustment being 0, and the net demand of the block is the same with either table. The
  adjustment functions have no error result.
\<close>

theorem missing_row_is_zero:
  assumes "table_entry df date block = None"
      and "table_entry df0 date block = Some 0"
  shows "adjust_demand_with_open_access date block demand_mw df
           = adjust_demand_with_open_access date block demand_mw df0
       \<and> adjust_demand_with_open_access date block demand_mw df
           = (demand_mw * DEMAND_CONVERSION_FACTOR, 0)
       \<and> adjust_demand_with_bank date block demand_kwh df
           = adjust_demand_with_bank date block demand_kwh df0
       \<and> adjust_demand_with_bank date block demand_kwh df = (demand_kwh, 0)
       \<and> net_demand (glob\<lparr>oa_table := df\<rparr>) demand_mw date block
           = net_demand (glob\<lparr>oa_table := df0\<rparr>) demand_mw date block
       \<and> net_demand (glob\<lparr>bank_table := df\<rparr>) demand_mw date block
           = net_demand (glob\<lparr>bank_table := df0\<rparr>) demand_mw date block"
  using assms by (simp add: adjust_oa_entry adjust_bank_entry net_demand_def)

theorem missing_row_is_zero_witness:
  "table_entry no_rows 1 1 = None \<and> table_entry (sheet [1] 1 0) 1 1 = Some 0
   \<and> adjust_demand_with_open_access 1 1 100 no_rows
        = adjust_demand_with_open_access 1 1 100 (sheet [1] 1 0)
   \<and> adjust_demand_with_open_access 1 1 100 no_rows = (100 * DEMAND_CONVERSION_FACTOR, 0)
   \<and> adjust_demand_with_bank 1 1 25000 no_rows = adjust_demand_with_bank 1 1 25000 (sheet [1] 1 0)
   \<and> adjust_demand_with_bank 1 1 25000 no_rows = (25000, 0)
   \<and> net_demand (example_globals\<lparr>oa_table := no_rows\<rparr>) 100 1 1
        = net_demand (example_globals\<lparr>oa_table := sheet [1] 1 0\<rparr>) 100 1 1
   \<and> net_demand (example_globals\<lparr>bank_table := no_rows\<rparr>) 100 1 1
        = net_demand (example_globals\<lparr>bank_table := sheet [1] 1 0\<rparr>) 100 1 1"
proof -
  have a: "table_entry no_rows 1 1 = None"
    by (simp add: table_entry_def rows_on_def no_rows_def)
  have b: "table_entry (sheet [1] 1 0) 1 1 = Some 0"
    by (simp add: table_entry_def rows_on_def sheet_def)
  from missing_row_is_zero [OF a b, of 100 25000 example_globals] a b show ?thesis
    by blast
qed

subsection \<open>C6: order of the report\<close>

text \<open>
  C6, as stated: the rows of the report are always sorted by date, then block, whatever
  the order in which the blocks complete, so that two runs over the same inputs give the
  same report in order and values. \<^verbatim>\<open>run_normal\<close> appends the results in the order of
  \<^verbatim>\<open>as_completed\<close> and builds the frame from that list; nothing sorts it. Below, the
  task of date 2 completes before the task of date 1: the report has the row of date 2
  first, is not sorted, and differs from the report of the run in which the tasks
  complete in submission order.
\<close>

theorem report_order_counterexample:
  "submit_tasks example_demand 1 2 1 1 = Inr [(100, 1, 1), (100, 2, 1)]
   \<and> rev [(100 :: real, 1 :: date, 1 :: int), (100, 2, 1)] = [(100, 2, 1), (100, 1, 1)]
   \<and> run_normal greedy_solver example_globals example_demand [gen_A, gen_B] 1 2 1 1 rev
       = Inr [example_row 2, example_row 1]
   \<and> col_Date (example_row 2) = 2 \<and> col_Date (example_row 1) = 1
   \<and> \<not> sorted_by_date_block [example_row 2, example_row 1]
   \<and> run_normal greedy_solver example_globals example_demand [gen_A, gen_B] 1 2 1 1 id
       = Inr [example_row 1, example_row 2]
   \<and> [example_row 1, example_row 2] \<noteq> [example_row 2, example_row 1]"
  by (simp add: example_tasks example_run_id example_run_rev)
     (simp add: example_row_def sorted_by_date_block_def)

text \<open>
  C6, amended. The rows of the report stand in the order in which the block results
  complete: their (date, block) keys are those of the successful tasks, in completion
  order. Two runs over the same inputs and ranges, with the same solver, yield reports
  with the same rows (equal as multisets, so equal in values), and the identical report
  when the tasks complete in the same order.
\<close>

theorem report_follows_completion_order:
  assumes sub: "submit_tasks df_demand start_date end_date start_block end_block = Inr futures"
      and perm: "mset (order1 futures) = mset futures" "mset (order2 futures) = mset futures"
      and run1: "run_normal solve glob df_demand gens start_date end_date start_block end_block order1
                   = Inr report1"
      and run2: "run_normal solve glob df_demand gens start_date end_date start_block end_block order2
                   = Inr report2"
  shows "mset report1 = mset report2
       \<and> map (\<lambda>row. (col_Date row, col_Block row)) report1
           = map (\<lambda>t. (fst (snd t), snd (snd t)))
               (filter (\<lambda>t. fst (process_block solve glob (fst t) (fst (snd t)) (snd (snd t)) gens)
                              \<noteq> None)
                  (order1 futures))
       \<and> (order1 futures = order2 futures \<longrightarrow> report1 = report2)"
proof -
  let ?res = "\<lambda>order. collect_results solve glob gens (order futures)"
  from sub run1 have rows1: "report_rows (?res order1) = Inr report1"
    by (simp add: run_normal_def Let_def split: if_splits)
  from sub run2 have rows2: "report_rows (?res order2) = Inr report2"
    by (simp add: run_normal_def Let_def split: if_splits)
  from report_rows_map [OF rows1] have r1: "report1 = map (projr \<circ> report_row_of) (?res order1)"
    and ok1: "list_all (\<lambda>r. (\<exists>row. report_row_of r = Inr row)) (?res order1)" by simp_all
  from report_rows_map [OF rows2] have r2: "report2 = map (projr \<circ> report_row_of) (?res order2)"
    by simp
  from perm have "mset (order1 futures) = mset (order2 futures)" by simp
  then have "mset (?res order1) = mset (?res order2)"
    unfolding collect_results_def by (rule mset_map_filter)
  then have "image_mset (projr \<circ> report_row_of) (mset (?res order1))
             = image_mset (projr \<circ> report_row_of) (mset (?res order2))" by simp
  then have same: "mset report1 = mset report2"
    unfolding r1 r2 by simp
  have "map (\<lambda>row. (col_Date row, col_Block row)) report1
          = map (\<lambda>r. (Date r, Block r)) (?res order1)"
    unfolding r1 using ok1 by (auto simp: list_all_iff report_row_of_key)
  then have order: "map (\<lambda>row. (col_Date row, col_Block row)) report1
           = map (\<lambda>t. (fst (snd t), snd (snd t)))
               (filter (\<lambda>t. fst (process_block solve glob (fst t) (fst (snd t)) (snd (snd t)) gens)
                              \<noteq> None)
                  (order1 futures))"
    by (simp add: collect_results_keys)
  have "report1 = report2" if "order1 futures = order2 futures"
    using that r1 r2 by simp
  with same order show ?thesis by blast
qed

theorem report_follows_completion_order_witness:
  "submit_tasks example_demand 1 2 1 1 = Inr [(100, 1, 1), (100, 2, 1)]
   \<and> mset (id [(100 :: real, 1 :: date, 1 :: int), (100, 2, 1)]) = mset [(100, 1, 1), (100, 2, 1)]
   \<and> mset (rev [(100 :: real, 1 :: date, 1 :: int), (100, 2, 1)]) = mset [(100, 1, 1), (100, 2, 1)]
   \<and> run_normal greedy_solver example_globals example_demand [gen_A, gen_B] 1 2 1 1 id
       = Inr [example_row 1, example_row 2]
   \<and> run_normal greedy_solver example_globals example_demand [gen_A, gen_B] 1 2 1 1 rev
       = Inr [example_row 2, example_row 1]
   \<and> mset [example_row 1, example_row 2] = mset [example_row 2, example_row 1]
   \<and> map (\<lambda>row. (col_Date row, col_Block row)) [example_row 2, example_row 1] = [(2, 1), (1, 1)]"
proof -
  have p1: "mset (id [(100 :: real, 1 :: date, 1 :: int), (100, 2, 1)]) = mset [(100, 1, 1), (100, 2, 1)]"
    by simp
  have p2: "mset (rev [(100 :: real, 1 :: date, 1 :: int), (100, 2, 1)]) = mset [(100, 1, 1), (100, 2, 1)]"
    by simp
  note t = report_follows_completion_order
             [OF example_tasks p2 p1 example_run_rev example_run_id]
  from t have "mset [example_row 1, example_row 2] = mset [example_row 2, example_row 1]"
    by simp
  moreover from t have "map (\<lambda>row. (col_Date row, col_Block row)) [example_row 2, example_row 1]
                         = [(2, 1), (1, 1)]"
    by (simp add: example_block)
  ultimately show ?thesis
    using example_tasks p1 p2 example_run_id example_run_rev by blast
qed

subsection \<open>C7: the demand field and the net-demand column\<close>

text \<open>
  C7. For every successful block the result's demand field holds the raw demand, and the
  derived net-demand column of the report equals raw demand minus open access plus bank,
  in kWh, that is the net demand computed by the demand adjustment. In the source,
  \<^verbatim>\<open>process_block\<close> hands the adjusted demand \<^verbatim>\<open>demand_after_bank\<close> to
  \<^verbatim>\<open>optimize_power_for_demand\<close>, which stores it under \<^verbatim>\<open>Demand\<close>; \<^verbatim>\<open>run_normal\<close> then
  applies the two adjustments to that field once more. The run below has a raw demand of
  100 MW and an open-access entry of 10 MW: the net demand is 22500 kWh, the demand
  field holds 22500 and the net-demand column 20000.
\<close>

theorem net_demand_column_with_open_access:
  "net_demand oa_globals 100 1 1 = 22500
   \<and> run_normal greedy_solver oa_globals example_demand [gen_A, gen_B] 1 1 1 1 id
       = Inr [\<lparr>col_Date = 1, col_Block = 1, col_Demand = 22500, col_OA_Used_MW = 10,
                col_Bank_Adjustment_MW = 0, col_Net_Demand_kWh = 20000,
                col_Must_Run_Generators_Used_kWh = 25,
                col_Must_Run_Generator_Details = [(''A'', 25, 50)],
                col_Available_Generators_Used_kWh = 50,
                col_Available_Generator_Details = [(''B'', 50, 150)],
                col_Grid_Consumption_kWh = 22425, col_Grid_Rate = 5,
                col_Total_Cost = 112325\<rparr>]"
  by (simp add: run_defs model_defs sample_defs oa_globals_def example_demand_def Let_def)

text \<open>
  In general the demand column holds the net demand, and the net-demand column is off by
  the adjustments applied a second time.
\<close>

lemma net_demand_column_value:
  assumes ok: "fst (process_block solve glob demand date block gens) = Some r"
  shows "\<exists>row oa bank. report_row_of r = Inr row
           \<and> OA_Used_MW r = Some oa \<and> Bank_Adjustment_MW r = Some bank
           \<and> net_demand glob demand date block
               = (demand - oa) * DEMAND_CONVERSION_FACTOR + bank * DEMAND_CONVERSION_FACTOR
           \<and> col_Demand row = net_demand glob demand date block
           \<and> col_Net_Demand_kWh row
               = net_demand glob demand date block
                   - oa * DEMAND_CONVERSION_FACTOR + bank * DEMAND_CONVERSION_FACTOR"
  using ok
  by (rule process_block_Some)
     (auto simp: report_row_of_def net_demand_def adjust_oa_entry adjust_bank_entry
           split: option.splits)

subsection \<open>C8: capacity bounds\<close>




subsection \<open>C10: decomposition of the total cost\<close>

text \<open>
  C10. For every successful block the total cost is the must-run cost plus the
  available-generator cost plus grid energy times grid rate, also when the remaining
  demand is 0 (all three other terms 0). In the source the branch for a positive
  remaining demand is the only place that assigns \<^verbatim>\<open>available_gen_details\<close>, and the
  returned dictionary reads it: with a remaining demand of exactly 0 the function raises
  UnboundLocalError and the block has no result. Below, the must-run energy of 25 kWh
  meets a net demand of 25 kWh, and a grid rate exists.
\<close>

theorem zero_remaining_demand_raises:
  "net_demand example_globals 0.1 1 1 = 25
   \<and> calculate_must_run_power example_globals [gen_A, gen_B] 1 1 = Inr (25, 50, [(''A'', 25, 50)])
   \<and> load_grid_cost 1 1 (grid_cost_table example_globals) = Inr 5
   \<and> optimize_power_for_demand greedy_solver example_globals 25 1 1 [gen_A, gen_B]
        (fst (setup_optimization_problem [gen_A, gen_B]))
        (snd (setup_optimization_problem [gen_A, gen_B]))
       = (Inl (Raised UnboundLocalError), [])
   \<and> process_block greedy_solver example_globals 0.1 1 1 [gen_A, gen_B] = (None, [])"
  by (simp add: model_defs sample_defs Let_def)

text \<open>
  The same holds for every block whose net demand equals its must-run energy; and every
  block that does succeed has a positive remaining demand and the decomposition, its
  must-run and available-generator costs being the sums of the costs of the detail lines.
\<close>

lemma zero_remaining_demand_fails:
  assumes "calculate_must_run_power glob gens date block = Inr (mp, mc, md)"
      and "net_demand glob demand date block = mp"
  shows "process_block solve glob demand date block gens = (None, [])"
  using assms
  by (auto simp: process_block_alt optimize_power_for_demand_def Let_def split: sum.splits)

lemma total_cost_decomposition:
  assumes ok: "fst (process_block solve glob demand date block gens) = Some r"
  shows "Total_Cost r = sum_list (map (snd \<circ> snd) (Must_Run_Generator_Details r))
                        + sum_list (map (snd \<circ> snd) (Available_Generator_Details r))
                        + Grid_Consumption_kWh r * Grid_Rate r
       \<and> Must_Run_Generators_Used_kWh r < net_demand glob demand date block"
proof -
  from ok obtain mp mc md gc met cost det where
      mr: "calculate_must_run_power glob gens date block = Inr (mp, mc, md)"
    and rem: "0 < net_demand glob demand date block - mp"
    and opt: "optimize_available_generators solve glob (net_demand glob demand date block - mp)
               date block gens (fst (setup_optimization_problem gens))
               (snd (setup_optimization_problem gens))
             = (Inr (met, cost, det), snd (process_block solve glob demand date block gens))"
    and r: "r = \<lparr>Date = date, Block = block, Demand = net_demand glob demand date block,
          Total_Demand_Met = net_demand glob demand date block,
          Must_Run_Generators_Used_kWh = mp,
          Available_Generators_Used_kWh = met,
          Grid_Consumption_kWh = (if met < net_demand glob demand date block - mp then net_demand glob demand date block - mp - met else 0),
          Total_Cost = (if met < net_demand glob demand date block - mp then mc + cost + (net_demand glob demand date block - mp - met) * gc else mc + cost),
          Grid_Rate = gc,
          OA_Used_MW = Some (snd (adjust_demand_with_open_access date block demand (oa_table glob))),
          Bank_Adjustment_MW = Some (snd (adjust_demand_with_bank date block
            (fst (adjust_demand_with_open_access date block demand (oa_table glob))) (bank_table glob))),
          Must_Run_Generator_Details = md,
          Available_Generator_Details = det\<rparr>"
    by (rule process_block_Some)
  from mr have mc: "mc = sum_list (map (snd \<circ> snd) md)"
    using must_run_loop_sums [of glob date block _ 0 0 "[]" mp mc md]
    by (simp add: calculate_must_run_power_def)
  from available_optimal_or_zero [OF opt]
  have cost: "cost = sum_list (map (snd \<circ> snd) det)"
    by (auto simp: comp_def)
  from mc cost rem show ?thesis unfolding r by simp
qed

end
